theory Spec2Isabelle
  imports Complex_Main
begin

section \<open>The adaptive recurrent leaky neuron of \<^verbatim>\<open>drl/LSNN/lleaky.py\<close>\<close>

text \<open>
  The development embeds class \<^verbatim>\<open>LLeaky\<close> and class \<^verbatim>\<open>RecurrentOneToOne\<close>.

  Conventions of the embedding.
  \<^item> A tensor is a function from the (flattened) unit index to its value. Tensor
    arithmetic of the source is elementwise, a scalar operand is the constant function.
    Entries are real numbers: rounding, infinities and NaN of the float type are outside
    the model, and so are shapes (a shape mismatch is an error of the tensor library, not of
    this file).
  \<^item> A method that assigns to \<^verbatim>\<open>self\<close> takes the object and returns the updated object.
    A raised exception is the \<open>Inl\<close> branch of a sum; where the object may already have
    been changed when the exception is raised, the object is returned beside the sum.
  \<^item> Python identifiers that begin with an underscore lose it
    (\<^verbatim>\<open>_base_state_function\<close> is \<open>base_state_function\<close>); \<^verbatim>\<open>__init__\<close> is \<open>LLeaky_init\<close>.
  \<^item> Gradient bookkeeping (\<^verbatim>\<open>spike_grad\<close>, \<^verbatim>\<open>learn_beta\<close>, \<^verbatim>\<open>learn_recurrent\<close>,
    \<^verbatim>\<open>_disable_recurrent_grad\<close>, \<^verbatim>\<open>detach_hidden\<close>) changes no value and is left out.
\<close>

subsection \<open>Tensors\<close>

type_synonym tensor = "nat \<Rightarrow> real"

definition tadd :: "tensor \<Rightarrow> tensor \<Rightarrow> tensor" where
  "tadd x y = (\<lambda>i. x i + y i)"

definition tsub :: "tensor \<Rightarrow> tensor \<Rightarrow> tensor" where
  "tsub x y = (\<lambda>i. x i - y i)"

definition tmul :: "tensor \<Rightarrow> tensor \<Rightarrow> tensor" where
  "tmul x y = (\<lambda>i. x i * y i)"

definition scalar :: "real \<Rightarrow> tensor" where
  "scalar c = (\<lambda>i. c)"

text \<open>\<^verbatim>\<open>t.clamp(lo, hi)\<close>: every entry is raised to \<open>lo\<close> and then lowered to \<open>hi\<close>.\<close>

definition clamp :: "tensor \<Rightarrow> real \<Rightarrow> real \<Rightarrow> tensor" where
  "clamp t lo hi = (\<lambda>i. min (max (t i) lo) hi)"

text \<open>\<^verbatim>\<open>torch.zeros_like(input_)\<close>; the shape it copies is not part of a tensor here.\<close>

definition zeros_like :: "tensor \<Rightarrow> tensor" where
  "zeros_like x = (\<lambda>i. 0)"

subsection \<open>Values of the state arguments and attributes\<close>

text \<open>
  The arguments \<^verbatim>\<open>spk\<close>, \<^verbatim>\<open>mem\<close>, \<^verbatim>\<open>b\<close> of \<^verbatim>\<open>forward\<close> default to \<^verbatim>\<open>False\<close>; a state made
  by an \<^verbatim>\<open>init_...\<close> method is a \<^verbatim>\<open>_SpikeTensor\<close>, the placeholder that carries the
  attribute \<^verbatim>\<open>init_flag\<close>; anything else is an ordinary tensor.
\<close>

datatype pyval = PyFalse | SpikeTensor | Tensor tensor

text \<open>\<^verbatim>\<open>hasattr(x, "init_flag")\<close>\<close>

fun has_init_flag :: "pyval \<Rightarrow> bool" where
  "has_init_flag SpikeTensor = True"
| "has_init_flag PyFalse = False"
| "has_init_flag (Tensor t) = False"

text \<open>
  The value a state takes in arithmetic. \<^verbatim>\<open>False\<close> is the number 0. The placeholder
  holds no entries; \<^verbatim>\<open>forward\<close> replaces it by zeros before it computes, on every path
  that the theorems below speak about, and it is read as zeros here.
\<close>

fun val :: "pyval \<Rightarrow> tensor" where
  "val (Tensor t) = t"
| "val PyFalse = (\<lambda>i. 0)"
| "val SpikeTensor = (\<lambda>i. 0)"

text \<open>
  The exceptions this file raises, or lets a Python built-in raise: \<^verbatim>\<open>TypeError\<close> by the
  \<^verbatim>\<open>raise\<close> statements (and by subscripting \<^verbatim>\<open>None\<close>), \<^verbatim>\<open>ZeroDivisionError\<close> by the
  division in \<^verbatim>\<open>__init__\<close>, \<^verbatim>\<open>AttributeError\<close> by reading an attribute that the object
  does not have.
\<close>

datatype error = TypeError | ZeroDivisionError | AttributeError

subsection \<open>The recurrent projection\<close>

text \<open>\<^verbatim>\<open>kernel_size\<close> is an \<^verbatim>\<open>int\<close> or a pair.\<close>

datatype kernel = KInt int | KPair int int

text \<open>
  \<^verbatim>\<open>self.recurrent\<close> is an \<^verbatim>\<open>nn.Linear\<close>, an \<^verbatim>\<open>nn.Conv2d\<close> or a
  \<^verbatim>\<open>RecurrentOneToOne\<close>. The two library modules are kept with the arguments they are
  built from, and with the transform their weights compute.
\<close>

datatype recurrent_net =
    Linear "int option" "int option" "tensor \<Rightarrow> tensor"
  | Conv2d "int option" "int option" kernel "int \<times> int" "tensor \<Rightarrow> tensor"
  | RecurrentOneToOne tensor

text \<open>Calling the module; \<^verbatim>\<open>RecurrentOneToOne.forward\<close> is \<^verbatim>\<open>x * self.V\<close>.\<close>

fun recurrent_forward :: "recurrent_net \<Rightarrow> tensor \<Rightarrow> tensor" where
  "recurrent_forward (Linear n_in n_out f) x = f x"
| "recurrent_forward (Conv2d c_in c_out k p f) x = f x"
| "recurrent_forward (RecurrentOneToOne v) x = tmul x v"

subsection \<open>The layer object\<close>

text \<open>
  \<^verbatim>\<open>reset_mechanism_val\<close> is 0, 1 or 2; the base class derives it from the tokens
  \<^verbatim>\<open>"subtract"\<close>, \<^verbatim>\<open>"zero"\<close>, \<^verbatim>\<open>"none"\<close> and admits no other value.
\<close>

datatype reset_mechanism = Subtract | Zero | NoReset

record LLeaky =
  beta :: tensor
  threshold :: tensor
  init_hidden :: bool
  inhibition :: bool
  reset_mechanism_val :: reset_mechanism
  state_quant :: "(tensor \<Rightarrow> tensor) option"
  output' :: bool
  all_to_all :: bool
  linear_features :: "int option"
  kernel_size :: "kernel option"
  conv2d_channels :: "int option"
  rho_b :: real
  thresh_beta :: real
  V :: tensor
  padding :: "int \<times> int"
  recurrent :: recurrent_net
  spk :: pyval
  mem :: pyval
  b :: pyval
  reset :: tensor
  has_spk :: bool
  has_mem :: bool
  has_b :: bool

text \<open>
  Whether the attributes \<^verbatim>\<open>spk\<close>, \<^verbatim>\<open>mem\<close> and \<^verbatim>\<open>b\<close> exist. On a layer with
  \<^verbatim>\<open>init_hidden\<close>, line 288 has assigned all three and nothing removes an attribute, so
  they exist. On a layer without it \<^verbatim>\<open>__init__\<close> assigns none of them: there the
  fields \<open>has_spk\<close>, \<open>has_mem\<close>, \<open>has_b\<close> say which of them something else (the base-class
  constructor, \<^verbatim>\<open>reset_hidden\<close>) has assigned, and the fields \<open>spk\<close>, \<open>mem\<close>, \<open>b\<close> are
  read only where the attribute exists.
\<close>

definition attr_exists :: "(LLeaky \<Rightarrow> bool) \<Rightarrow> LLeaky \<Rightarrow> bool" where
  "attr_exists has self = (init_hidden self \<or> has self)"

subsection \<open>The state functions\<close>

definition base_state_function :: "LLeaky \<Rightarrow> tensor \<Rightarrow> tensor \<Rightarrow> tensor \<Rightarrow> tensor" where
  "base_state_function self input' spk0 mem0 =
     tadd (tmul (clamp (beta self) 0 1) mem0)
          (tmul (tsub (scalar 1) (clamp (beta self) 0 1))
                (tadd input' (recurrent_forward (recurrent self) spk0)))"

definition b_state_function :: "LLeaky \<Rightarrow> tensor \<Rightarrow> tensor \<Rightarrow> tensor" where
  "b_state_function self spk0 b0 =
     tadd (tmul (scalar (rho_b self)) b0) (tmul (scalar (1 - rho_b self)) spk0)"

definition get_new_thresh :: "LLeaky \<Rightarrow> tensor \<Rightarrow> tensor" where
  "get_new_thresh self b0 = tadd (threshold self) (tmul b0 (scalar (thresh_beta self)))"

definition build_state_function ::
  "LLeaky \<Rightarrow> tensor \<Rightarrow> tensor \<Rightarrow> tensor \<Rightarrow> tensor \<Rightarrow> tensor" where
  "build_state_function self input' spk0 mem0 thresh =
     (case reset_mechanism_val self of
        Subtract \<Rightarrow>
          base_state_function self input' spk0 (tsub mem0 (tmul (reset self) thresh))
      | Zero \<Rightarrow>
          tsub (base_state_function self input' spk0 mem0)
               (tmul (reset self) (base_state_function self input' spk0 mem0))
      | NoReset \<Rightarrow> base_state_function self input' spk0 mem0)"

definition base_state_function_hidden :: "LLeaky \<Rightarrow> tensor \<Rightarrow> tensor" where
  "base_state_function_hidden self input' =
     tadd (tadd (tmul (clamp (beta self) 0 1) (val (mem self))) input')
          (recurrent_forward (recurrent self) (val (spk self)))"

definition build_state_function_hidden :: "LLeaky \<Rightarrow> tensor \<Rightarrow> tensor" where
  "build_state_function_hidden self input' =
     (case reset_mechanism_val self of
        Subtract \<Rightarrow>
          tsub (base_state_function_hidden self input') (tmul (reset self) (threshold self))
      | Zero \<Rightarrow>
          tsub (base_state_function_hidden self input')
               (tmul (reset self) (base_state_function_hidden self input'))
      | NoReset \<Rightarrow> base_state_function_hidden self input')"


subsection \<open>What the file takes from its base class and from the tensor library\<close>

text \<open>
  Class \<^verbatim>\<open>ALIF\<close> and the function \<^verbatim>\<open>_SpikeTorchConv\<close> come from the module
  \<^verbatim>\<open>.neurons\<close>, which is not among the sources. The methods that \<^verbatim>\<open>forward\<close>,
  \<^verbatim>\<open>__init__\<close> and \<^verbatim>\<open>reset_hidden\<close> call on the base class are parameters of the model,
  each with the arguments the call sites pass (\<open>None\<close> for an argument a call leaves
  out); they are taken to return a value and to assign nothing. \<open>size0\<close> is
  \<^verbatim>\<open>mem.size(0)\<close>, the batch size, which a tensor here does not carry.
\<close>

record ALIF =
  alif_mem_reset :: "LLeaky \<Rightarrow> tensor \<Rightarrow> tensor \<Rightarrow> tensor \<Rightarrow> tensor"
  mem_reset :: "LLeaky \<Rightarrow> tensor \<Rightarrow> tensor"
  alif_fire :: "LLeaky \<Rightarrow> tensor \<Rightarrow> tensor option \<Rightarrow> tensor option \<Rightarrow> tensor"
  alif_fire_inhibition :: "LLeaky \<Rightarrow> nat \<Rightarrow> tensor \<Rightarrow> tensor option \<Rightarrow> tensor"
  size0 :: "tensor \<Rightarrow> nat"
  init_lleaky :: "pyval \<times> pyval \<times> pyval"
  init_rleaky :: "pyval \<times> pyval"

text \<open>
  Modelled from the spec: \<^verbatim>\<open>_SpikeTorchConv\<close> is missing from the sources. Section 4.5
  has the placeholders replaced by zero-valued state shaped to match the input, one
  tensor for each state handed in.
\<close>

definition SpikeTorchConv :: "pyval \<Rightarrow> pyval \<Rightarrow> pyval \<Rightarrow> tensor \<Rightarrow> pyval \<times> pyval \<times> pyval" where
  "SpikeTorchConv s m b0 input' =
     (Tensor (zeros_like input'), Tensor (zeros_like input'), Tensor (zeros_like input'))"

text \<open>
  Modelled from the spec: an instance of the missing base-class methods for one batch
  element of \<open>n\<close> units, used where a theorem is evaluated at a concrete input. Section
  4.4: the reset signal and the spike are 1 where the potential meets or exceeds the
  threshold; under inhibition only the unit of maximal potential may spike, the lowest
  index among equal maxima. Section 4.5: a state is created as the placeholder.
\<close>

definition meets :: "tensor \<Rightarrow> tensor \<Rightarrow> tensor" where
  "meets m t = (\<lambda>i. if t i \<le> m i then 1 else 0)"

definition argmax_first :: "nat \<Rightarrow> tensor \<Rightarrow> nat" where
  "argmax_first n m = fold (\<lambda>i best. if m best < m i then i else best) [0..<n] 0"

definition spec_ALIF :: "nat \<Rightarrow> ALIF" where
  "spec_ALIF n =
     \<lparr> alif_mem_reset = (\<lambda>self m b0 t. meets m t),
       mem_reset = (\<lambda>self m. meets m (threshold self)),
       alif_fire = (\<lambda>self m t b0. meets m (case t of None \<Rightarrow> threshold self | Some th \<Rightarrow> th)),
       alif_fire_inhibition = (\<lambda>self batch m t i.
          if i = argmax_first n m
          then meets m (case t of None \<Rightarrow> threshold self | Some th \<Rightarrow> th) i else 0),
       size0 = (\<lambda>m. 1),
       init_lleaky = (SpikeTensor, SpikeTensor, SpikeTensor),
       init_rleaky = (SpikeTensor, SpikeTensor) \<rparr>"

subsection \<open>The step\<close>

text \<open>\<^verbatim>\<open>_lleaky_forward_cases\<close>; \<^verbatim>\<open>x is not False\<close> holds of every value but \<^verbatim>\<open>False\<close>.\<close>

definition lleaky_forward_cases :: "pyval \<Rightarrow> pyval \<Rightarrow> error + unit" where
  "lleaky_forward_cases spk0 mem0 =
     (if mem0 \<noteq> PyFalse \<or> spk0 \<noteq> PyFalse then Inl TypeError else Inr ())"

datatype ret = Ret3 tensor tensor tensor | Ret2 tensor tensor | Ret1 tensor

text \<open>Lines 308 to 323, the branch \<^verbatim>\<open>if not self.init_hidden\<close>.\<close>

definition forward_explicit ::
  "ALIF \<Rightarrow> LLeaky \<Rightarrow> tensor \<Rightarrow> pyval \<Rightarrow> pyval \<Rightarrow> pyval \<Rightarrow> LLeaky \<times> (error + ret)" where
  "forward_explicit A self input' spk0 mem0 b0 =
     (let b1 = b_state_function self (val spk0) (val b0);
          thresh = get_new_thresh self b1;
          self1 = self \<lparr> reset := alif_mem_reset A self (val mem0) b1 thresh \<rparr>;
          mem1 = build_state_function self1 input' (val spk0) (val mem0) thresh;
          mem2 = (case state_quant self1 of None \<Rightarrow> mem1 | Some q \<Rightarrow> q mem1);
          spk1 = (if inhibition self1
                  then alif_fire_inhibition A self1 (size0 A mem2) mem2 (Some thresh)
                  else alif_fire A self1 mem2 (Some thresh) (Some b1))
      in (self1, Inr (Ret3 spk1 mem2 b1)))"

text \<open>Lines 327 to 343, the branch \<^verbatim>\<open>if self.init_hidden\<close>.\<close>

definition forward_hidden ::
  "ALIF \<Rightarrow> LLeaky \<Rightarrow> tensor \<Rightarrow> pyval \<Rightarrow> pyval \<Rightarrow> LLeaky \<times> (error + ret)" where
  "forward_hidden A self input' spk0 mem0 =
     (case lleaky_forward_cases spk0 mem0 of
        Inl e \<Rightarrow> (self, Inl e)
      | Inr u \<Rightarrow>
         (let self1 = self \<lparr> reset := mem_reset A self (val (mem self)) \<rparr>;
              self2 = self1 \<lparr> mem := Tensor (build_state_function_hidden self1 input') \<rparr>;
              self3 = (case state_quant self2 of
                         None \<Rightarrow> self2
                       | Some q \<Rightarrow> self2 \<lparr> mem := Tensor (q (val (mem self2))) \<rparr>);
              self4 = (if inhibition self3
                       then self3 \<lparr> spk := Tensor (alif_fire_inhibition A self3
                                         (size0 A (val (mem self3))) (val (mem self3)) None) \<rparr>
                       else self3 \<lparr> spk := Tensor (alif_fire A self3 (val (mem self3)) None None) \<rparr>)
          in (self4, Inr (if output' self4
                          then Ret2 (val (spk self4)) (val (mem self4))
                          else Ret1 (val (spk self4))))))"

text \<open>
  \<^verbatim>\<open>forward\<close>. Lines 294 to 302 replace placeholders by zeros: those passed in, in local
  variables, or else those the layer owns, in its attributes. The test on line 299
  reads \<^verbatim>\<open>self.mem\<close> when \<^verbatim>\<open>mem is False\<close>, and the right-hand side on lines 300 to 302
  reads \<^verbatim>\<open>self.spk\<close>, \<^verbatim>\<open>self.mem\<close> and \<^verbatim>\<open>self.b\<close> before anything is assigned.
\<close>

definition forward ::
  "ALIF \<Rightarrow> LLeaky \<Rightarrow> tensor \<Rightarrow> pyval \<Rightarrow> pyval \<Rightarrow> pyval \<Rightarrow> LLeaky \<times> (error + ret)" where
  "forward A self input' spk0 mem0 b0 =
     (if has_init_flag spk0 \<or> has_init_flag mem0 then
        (case SpikeTorchConv spk0 mem0 b0 input' of
           (s, m, b1) \<Rightarrow>
             if \<not> init_hidden self then forward_explicit A self input' s m b1
             else forward_hidden A self input' s m)
      else if mem0 = PyFalse \<and> \<not> attr_exists has_mem self then (self, Inl AttributeError)
      else if mem0 = PyFalse \<and> has_init_flag (mem self) then
        (if \<not> (attr_exists has_spk self \<and> attr_exists has_b self)
         then (self, Inl AttributeError)
         else
          (case SpikeTorchConv (spk self) (mem self) (b self) input' of
             (s, m, b1) \<Rightarrow>
               (let self1 = self \<lparr> spk := s, mem := m, b := b1 \<rparr>
                in if \<not> init_hidden self1 then forward_explicit A self1 input' spk0 mem0 b0
                   else forward_hidden A self1 input' spk0 mem0)))
      else if \<not> init_hidden self then forward_explicit A self input' spk0 mem0 b0
      else forward_hidden A self input' spk0 mem0)"

subsection \<open>Construction\<close>

text \<open>Python truth values of \<^verbatim>\<open>None\<close>, an \<^verbatim>\<open>int\<close>, and an \<^verbatim>\<open>int\<close> or pair.\<close>

fun truthy_int :: "int option \<Rightarrow> bool" where
  "truthy_int None = False"
| "truthy_int (Some n) = (n \<noteq> 0)"

fun truthy_kernel :: "kernel option \<Rightarrow> bool" where
  "truthy_kernel None = False"
| "truthy_kernel (Some (KInt n)) = (n \<noteq> 0)"
| "truthy_kernel (Some (KPair k0 k1)) = True"

text \<open>\<^verbatim>\<open>_lleaky_init_cases\<close>; \<^verbatim>\<open>^\<close> on two truth values is their difference.\<close>

definition lleaky_init_cases :: "LLeaky \<Rightarrow> error + unit" where
  "lleaky_init_cases self =
     (let all_to_all_bool = all_to_all self;
          linear_features_bool = truthy_int (linear_features self);
          conv2d_channels_bool = truthy_int (conv2d_channels self);
          kernel_size_bool = truthy_kernel (kernel_size self)
      in if all_to_all_bool then
           (if \<not> linear_features_bool then
              (if \<not> (conv2d_channels_bool \<or> kernel_size_bool) then Inl TypeError
               else if conv2d_channels_bool \<noteq> kernel_size_bool then Inl TypeError
               else Inr ())
            else if (linear_features_bool \<and> kernel_size_bool)
                    \<or> (linear_features_bool \<and> conv2d_channels_bool) then Inl TypeError
            else Inr ())
         else
           (if linear_features_bool \<or> conv2d_channels_bool \<or> kernel_size_bool
            then Inl TypeError
            else Inr ()))"

text \<open>
  The builders of the recurrent projection. \<open>W\<close> is the transform that the freshly
  initialised library module computes. Floor division \<^verbatim>\<open>//\<close> is \<open>div\<close> on \<open>int\<close>.
\<close>

definition init_recurrent_linear :: "(tensor \<Rightarrow> tensor) \<Rightarrow> LLeaky \<Rightarrow> LLeaky" where
  "init_recurrent_linear W self =
     self \<lparr> recurrent := Linear (linear_features self) (linear_features self) W \<rparr>"

definition init_padding :: "LLeaky \<Rightarrow> error + LLeaky" where
  "init_padding self =
     (case kernel_size self of
        Some (KInt n) \<Rightarrow> Inr (self \<lparr> padding := (n div 2, n div 2) \<rparr>)
      | Some (KPair k0 k1) \<Rightarrow> Inr (self \<lparr> padding := (k0 div 2, k1 div 2) \<rparr>)
      | None \<Rightarrow> Inl TypeError)"

definition init_recurrent_conv2d :: "(tensor \<Rightarrow> tensor) \<Rightarrow> LLeaky \<Rightarrow> error + LLeaky" where
  "init_recurrent_conv2d W self =
     (case init_padding self of
        Inl e \<Rightarrow> Inl e
      | Inr self1 \<Rightarrow>
          (case kernel_size self1 of
             None \<Rightarrow> Inl TypeError
           | Some k \<Rightarrow>
               Inr (self1 \<lparr> recurrent :=
                      Conv2d (conv2d_channels self1) (conv2d_channels self1) k (padding self1) W \<rparr>)))"

definition init_recurrent_one_to_one :: "LLeaky \<Rightarrow> LLeaky" where
  "init_recurrent_one_to_one self = self \<lparr> recurrent := RecurrentOneToOne (V self) \<rparr>"

definition init_recurrent_net :: "(tensor \<Rightarrow> tensor) \<Rightarrow> LLeaky \<Rightarrow> error + LLeaky" where
  "init_recurrent_net W self =
     (if all_to_all self then
        (if truthy_int (linear_features self) then Inr (init_recurrent_linear W self)
         else if kernel_size self \<noteq> None then init_recurrent_conv2d W self
         else Inr self)
      else Inr (init_recurrent_one_to_one self))"

text \<open>
  \<^verbatim>\<open>__init__\<close>, lines 261 to 288. \<open>self\<close> is the object as \<^verbatim>\<open>super().__init__\<close> leaves it,
  which has stored \<^verbatim>\<open>beta\<close>, \<^verbatim>\<open>threshold\<close>, \<^verbatim>\<open>init_hidden\<close>, \<^verbatim>\<open>inhibition\<close>, the reset
  mechanism, \<^verbatim>\<open>state_quant\<close> and \<^verbatim>\<open>output\<close>; the remaining arguments follow. The quotient
  \<^verbatim>\<open>dt/tau_adaptation\<close> of Python numbers raises when the divisor is 0.
  \<^verbatim>\<open>_V_register_buffer\<close> stores \<^verbatim>\<open>V\<close>.
\<close>

definition LLeaky_init ::
  "ALIF \<Rightarrow> (tensor \<Rightarrow> tensor) \<Rightarrow> LLeaky \<Rightarrow> tensor \<Rightarrow> real \<Rightarrow> real \<Rightarrow> real \<Rightarrow> bool \<Rightarrow>
   int option \<Rightarrow> int option \<Rightarrow> kernel option \<Rightarrow> error + LLeaky" where
  "LLeaky_init A W self V0 thresh_beta0 dt tau_adaptation all_to_all0 linear_features0
     conv2d_channels0 kernel_size0 =
     (let self1 = self \<lparr> all_to_all := all_to_all0, linear_features := linear_features0,
                         kernel_size := kernel_size0, conv2d_channels := conv2d_channels0 \<rparr>
      in if tau_adaptation = 0 then Inl ZeroDivisionError
         else
          (let self2 = self1 \<lparr> rho_b := exp (- dt / tau_adaptation),
                               thresh_beta := thresh_beta0 \<rparr>
           in case lleaky_init_cases self2 of
                Inl e \<Rightarrow> Inl e
              | Inr u \<Rightarrow>
                 (case (if all_to_all self2 then init_recurrent_net W self2
                        else Inr (init_recurrent_one_to_one (self2 \<lparr> V := V0 \<rparr>))) of
                    Inl e \<Rightarrow> Inl e
                  | Inr self3 \<Rightarrow>
                      if init_hidden self3
                      then (case init_lleaky A of
                              (s, m, b0) \<Rightarrow> Inr (self3 \<lparr> spk := s, mem := m, b := b0 \<rparr>))
                      else Inr self3)))"

text \<open>
  The spatial extent that \<^verbatim>\<open>nn.Conv2d\<close> returns along one axis for input extent \<open>n\<close>,
  kernel extent \<open>k\<close> and padding \<open>p\<close>, with the stride 1 and dilation 1 that the call on
  lines 360 to 365 leaves at their defaults (the shape rule of the library's
  documentation).
\<close>

definition conv2d_out_size :: "int \<Rightarrow> int \<Rightarrow> int \<Rightarrow> int" where
  "conv2d_out_size n k p = (n + 2 * p - 1 * (k - 1) - 1) div 1 + 1"

fun kernel_extent :: "kernel \<Rightarrow> int \<times> int" where
  "kernel_extent (KInt n) = (n, n)"
| "kernel_extent (KPair k0 k1) = (k0, k1)"

text \<open>The output height and width of the projection for an input of height and width \<open>hw\<close>.\<close>

fun recurrent_out_shape :: "recurrent_net \<Rightarrow> int \<times> int \<Rightarrow> int \<times> int" where
  "recurrent_out_shape (Conv2d c_in c_out k p f) hw =
     (conv2d_out_size (fst hw) (fst (kernel_extent k)) (fst p),
      conv2d_out_size (snd hw) (snd (kernel_extent k)) (snd p))"
| "recurrent_out_shape (Linear n_in n_out f) hw = hw"
| "recurrent_out_shape (RecurrentOneToOne v) hw = hw"

subsection \<open>Resetting the owned state\<close>

text \<open>
  \<^verbatim>\<open>reset_hidden\<close> walks the registry \<^verbatim>\<open>cls.instances\<close> and, on every instance of
  \<^verbatim>\<open>LLeaky\<close>, assigns the pair that \<^verbatim>\<open>init_rleaky()\<close> returns to \<^verbatim>\<open>spk\<close> and \<^verbatim>\<open>mem\<close>, which
  exist on the instance from then on.
\<close>

datatype registered = LLeakyInstance LLeaky | OtherInstance

definition reset_hidden_layer :: "ALIF \<Rightarrow> registered \<Rightarrow> registered" where
  "reset_hidden_layer A inst =
     (case inst of
        LLeakyInstance self \<Rightarrow>
          (case init_rleaky A of
             (s, m) \<Rightarrow>
               LLeakyInstance (self \<lparr> spk := s, mem := m, has_spk := True, has_mem := True \<rparr>))
      | OtherInstance \<Rightarrow> OtherInstance)"


subsection \<open>The layers that the owned-state convention can reach\<close>

text \<open>
  Modelled from the spec: \<^verbatim>\<open>init_lleaky\<close> and \<^verbatim>\<open>init_rleaky\<close> are missing from the
  sources. Section 4.5 has the owned state start as the distinguished uninitialised
  placeholder, which the first step replaces by zeros.
\<close>

definition creates_placeholders :: "ALIF \<Rightarrow> bool" where
  "creates_placeholders A \<longleftrightarrow>
     init_lleaky A = (SpikeTensor, SpikeTensor, SpikeTensor)
     \<and> init_rleaky A = (SpikeTensor, SpikeTensor)"


text \<open>Lines 315 to 316 and 332 to 333: the quantisation hook, when one is configured.\<close>

definition apply_state_quant :: "LLeaky \<Rightarrow> tensor \<Rightarrow> tensor" where
  "apply_state_quant self t = (case state_quant self of None \<Rightarrow> t | Some q \<Rightarrow> q t)"

subsection \<open>Layers for the concrete evaluations\<close>

text \<open>
  One-to-one feedback of weight 1, decay one half, base threshold 1, in the
  explicit-state convention: the layer has none of the attributes \<^verbatim>\<open>spk\<close>, \<^verbatim>\<open>mem\<close>, \<^verbatim>\<open>b\<close>.
\<close>

definition example_layer :: LLeaky where
  "example_layer =
     \<lparr> beta = scalar (1/2), threshold = scalar 1, init_hidden = False, inhibition = False,
       reset_mechanism_val = Zero, state_quant = None, output' = False,
       all_to_all = False, linear_features = None, kernel_size = None,
       conv2d_channels = None, rho_b = 1/2, thresh_beta = 2, V = scalar 1,
       padding = (0, 0), recurrent = RecurrentOneToOne (scalar 1),
       spk = Tensor (scalar 1), mem = Tensor (scalar 2), b = Tensor (scalar 0),
       reset = scalar 1, has_spk = False, has_mem = False, has_b = False \<rparr>"

definition example_hidden :: LLeaky where
  "example_hidden = example_layer \<lparr> init_hidden := True \<rparr>"

text \<open>
  The same layer in the owned-state convention under the subtract policy, with no
  previous spike; the explicit-state layer under the subtract policy; and a layer of the
  owned-state convention as \<^verbatim>\<open>__init__\<close> leaves it when
  the base class creates states as placeholders.
\<close>

definition subtract_hidden_layer :: LLeaky where
  "subtract_hidden_layer =
     example_hidden \<lparr> reset_mechanism_val := Subtract, spk := Tensor (scalar 0) \<rparr>"

definition subtract_layer :: LLeaky where
  "subtract_layer = example_layer \<lparr> reset_mechanism_val := Subtract \<rparr>"

definition fresh_hidden :: LLeaky where
  "fresh_hidden = example_hidden \<lparr> spk := SpikeTensor, mem := SpikeTensor, b := SpikeTensor \<rparr>"

text \<open>
  The owned state after one step with input current 2 on the freshly constructed layer.
\<close>

definition after_first_step :: LLeaky where
  "after_first_step = fst (forward (spec_ALIF 1) fresh_hidden (scalar 2) PyFalse PyFalse PyFalse)"

section \<open>Base integration\<close>

text \<open>
  C1. For every input current, previous spike and previous potential, and at every
  unit, the explicit-state base integration is
  \<open>\<beta>\<^sub>e\<^sub>f\<^sub>f * potential + (1 - \<beta>\<^sub>e\<^sub>f\<^sub>f) * (input + projection(spike))\<close>, the hidden-state one is
  \<open>\<beta>\<^sub>e\<^sub>f\<^sub>f * potential + input + projection(spike)\<close> without the factor \<open>1 - \<beta>\<^sub>e\<^sub>f\<^sub>f\<close>, over
  the owned potential and spike, and in both \<open>\<beta>\<^sub>e\<^sub>f\<^sub>f\<close> is the decay rate clamped to
  \<open>[0, 1]\<close>.
\<close>

theorem C1_base_integration:
  "base_state_function self input' spk0 mem0 i =
     clamp (beta self) 0 1 i * mem0 i
     + (1 - clamp (beta self) 0 1 i) * (input' i + recurrent_forward (recurrent self) spk0 i)
   \<and> base_state_function_hidden self input' i =
     clamp (beta self) 0 1 i * val (mem self) i
     + input' i + recurrent_forward (recurrent self) (val (spk self)) i
   \<and> 0 \<le> clamp (beta self) 0 1 i \<and> clamp (beta self) 0 1 i \<le> 1"
  by (simp add: base_state_function_def base_state_function_hidden_def
      tadd_def tsub_def tmul_def scalar_def clamp_def)


lemma clamp_unit_cases:
  "clamp t 0 1 i = (if t i < 0 then 0 else if 1 < t i then 1 else t i)"
  by (simp add: clamp_def)

section \<open>Threshold adaptation\<close>

lemma b_state_function_apply:
  "b_state_function self spk0 b0 i = rho_b self * b0 i + (1 - rho_b self) * spk0 i"
  by (simp add: b_state_function_def tadd_def tmul_def scalar_def)

lemma get_new_thresh_apply:
  "get_new_thresh self b0 i = threshold self i + b0 i * thresh_beta self"
  by (simp add: get_new_thresh_def tadd_def tmul_def scalar_def)

section \<open>Reset policies\<close>

lemma base_state_function_apply:
  "base_state_function self input' spk0 mem0 i =
     clamp (beta self) 0 1 i * mem0 i
     + (1 - clamp (beta self) 0 1 i) * (input' i + recurrent_forward (recurrent self) spk0 i)"
  by (simp add: base_state_function_def tadd_def tsub_def tmul_def scalar_def)

lemma base_state_function_hidden_apply:
  "base_state_function_hidden self input' i =
     clamp (beta self) 0 1 i * val (mem self) i
     + input' i + recurrent_forward (recurrent self) (val (spk self)) i"
  by (simp add: base_state_function_hidden_def tadd_def tmul_def)

text \<open>
  C4. Under the zero reset policy, in both calling conventions, a unit whose reset
  signal is 1 has post-update potential exactly 0, whatever the input current and the
  previous spike are, and a unit whose reset signal is 0 has the unchanged base
  integration as its post-update potential.
\<close>

theorem C4_zero_reset:
  assumes "reset_mechanism_val self = Zero"
  shows "(reset self i = 1 \<longrightarrow>
            build_state_function self input' spk0 mem0 thresh i = 0
            \<and> build_state_function_hidden self input' i = 0)
       \<and> (reset self i = 0 \<longrightarrow>
            build_state_function self input' spk0 mem0 thresh i
              = base_state_function self input' spk0 mem0 i
            \<and> build_state_function_hidden self input' i
              = base_state_function_hidden self input' i)"
  using assms
  by (simp add: build_state_function_def build_state_function_hidden_def tsub_def tmul_def)

theorem C4_zero_reset_witness:
  "reset_mechanism_val example_layer = Zero \<and> reset example_layer 0 = 1
   \<and> build_state_function example_layer (scalar 3) (scalar 1) (scalar 2) (scalar 1) 0 = 0
   \<and> build_state_function_hidden example_layer (scalar 3) 0 = 0
   \<and> reset (example_layer \<lparr> reset := scalar 0 \<rparr>) 0 = 0
   \<and> build_state_function (example_layer \<lparr> reset := scalar 0 \<rparr>)
        (scalar 3) (scalar 1) (scalar 2) (scalar 1) 0 = 3
   \<and> build_state_function_hidden (example_layer \<lparr> reset := scalar 0 \<rparr>) (scalar 3) 0 = 5"
proof -
  have z: "reset_mechanism_val example_layer = Zero"
    by (simp add: example_layer_def)
  have z0: "reset_mechanism_val (example_layer \<lparr> reset := scalar 0 \<rparr>) = Zero"
    by (simp add: example_layer_def)
  have r1: "reset example_layer 0 = 1"
    by (simp add: example_layer_def scalar_def)
  have r0: "reset (example_layer \<lparr> reset := scalar 0 \<rparr>) 0 = 0"
    by (simp add: scalar_def)
  have b1: "base_state_function (example_layer \<lparr> reset := scalar 0 \<rparr>)
              (scalar 3) (scalar 1) (scalar 2) 0 = 3"
    by (simp add: base_state_function_apply example_layer_def clamp_def scalar_def tmul_def)
  have b2: "base_state_function_hidden (example_layer \<lparr> reset := scalar 0 \<rparr>) (scalar 3) 0 = 5"
    by (simp add: base_state_function_hidden_apply example_layer_def clamp_def scalar_def
        tmul_def)
  from C4_zero_reset [OF z, of 0 "scalar 3" "scalar 1" "scalar 2" "scalar 1"]
       C4_zero_reset [OF z0, of 0 "scalar 3" "scalar 1" "scalar 2" "scalar 1"]
       z r1 r0 b1 b2
  show ?thesis by simp
qed


section \<open>The explicit-state step\<close>

lemma forward_explicit_tensors:
  "\<not> init_hidden self \<Longrightarrow>
   forward A self input' (Tensor spk0) (Tensor mem0) (Tensor b0)
     = forward_explicit A self input' (Tensor spk0) (Tensor mem0) (Tensor b0)"
  by (simp add: forward_def)

text \<open>
  C2. For every previous trace and previous spike, and at every unit, the new trace is
  \<open>\<rho>\<^sub>b * b + (1 - \<rho>\<^sub>b) * spike\<close> and the effective threshold is
  \<open>base_threshold + b' * thresh_coupling\<close>. The explicit-state step returns exactly this
  trace, whatever the potential, the threshold and the base-class methods are, and hands
  the threshold derived from it to the reset computation.
\<close>

theorem C2_adaptation:
  "b_state_function self spk0 b0 i = rho_b self * b0 i + (1 - rho_b self) * spk0 i
   \<and> get_new_thresh self (b_state_function self spk0 b0) i
       = threshold self i + b_state_function self spk0 b0 i * thresh_beta self
   \<and> (\<not> init_hidden self \<longrightarrow>
        (\<exists>s m. snd (forward A self input' (Tensor spk0) (Tensor mem0) (Tensor b0))
                 = Inr (Ret3 s m (b_state_function self spk0 b0)))
        \<and> reset (fst (forward A self input' (Tensor spk0) (Tensor mem0) (Tensor b0)))
            = alif_mem_reset A self mem0 (b_state_function self spk0 b0)
                (get_new_thresh self (b_state_function self spk0 b0)))"
  by (simp add: forward_explicit_tensors forward_explicit_def Let_def
      b_state_function_apply get_new_thresh_apply)

theorem C2_adaptation_witness:
  "\<not> init_hidden example_layer
   \<and> b_state_function example_layer (scalar 1) (scalar 0) 0 = 1/2
   \<and> get_new_thresh example_layer (b_state_function example_layer (scalar 1) (scalar 0)) 0 = 2
   \<and> (\<exists>s m. snd (forward (spec_ALIF 1) example_layer (scalar 3)
                   (Tensor (scalar 1)) (Tensor (scalar 2)) (Tensor (scalar 0)))
              = Inr (Ret3 s m (b_state_function example_layer (scalar 1) (scalar 0))))"
proof -
  have h: "\<not> init_hidden example_layer" by (simp add: example_layer_def)
  have r: "rho_b example_layer = 1/2" "thresh_beta example_layer = 2"
    "threshold example_layer 0 = 1"
    by (simp_all add: example_layer_def scalar_def)
  from C2_adaptation [of example_layer "scalar 1" "scalar 0" 0 "spec_ALIF 1" "scalar 3" "scalar 2"]
    h r
  show ?thesis by (simp add: scalar_def)
qed


section \<open>Construction\<close>

lemma lleaky_init_cases_result:
  "lleaky_init_cases self = Inl TypeError \<or> lleaky_init_cases self = Inr ()"
  by (simp add: lleaky_init_cases_def Let_def)

text \<open>A configuration that passes the check always gets its projection built.\<close>

lemma init_recurrent_net_valid:
  assumes "lleaky_init_cases self = Inr ()" and "all_to_all self"
  shows "\<exists>self1. init_recurrent_net W self = Inr self1"
  using assms
  by (cases "kernel_size self")
     (auto simp add: lleaky_init_cases_def init_recurrent_net_def init_recurrent_conv2d_def
        init_padding_def Let_def split: if_splits kernel.splits)

text \<open>
  \<^verbatim>\<open>__init__\<close> runs the check on line 275, before the builders on lines 278 to 282: it
  raises the \<^verbatim>\<open>TypeError\<close> exactly when the check does, and then returns no layer.
\<close>

lemma LLeaky_init_validates_first:
  assumes "tau_adaptation \<noteq> 0"
  shows "LLeaky_init A W self V0 thresh_beta0 dt tau_adaptation a l c k = Inl TypeError
         \<longleftrightarrow> lleaky_init_cases (self \<lparr> all_to_all := a, linear_features := l,
                kernel_size := k, conv2d_channels := c \<rparr>) = Inl TypeError"
proof -
  define s2 where "s2 = self \<lparr> all_to_all := a, linear_features := l, kernel_size := k,
      conv2d_channels := c, rho_b := exp (- dt / tau_adaptation), thresh_beta := thresh_beta0 \<rparr>"
  have same: "lleaky_init_cases (self \<lparr> all_to_all := a,
      linear_features := l, kernel_size := k, conv2d_channels := c \<rparr>) = lleaky_init_cases s2"
    by (simp add: lleaky_init_cases_def s2_def)
  have unfold: "LLeaky_init A W self V0 thresh_beta0 dt tau_adaptation a l c k =
      (case lleaky_init_cases s2 of
         Inl e \<Rightarrow> Inl e
       | Inr u \<Rightarrow>
          (case (if all_to_all s2 then init_recurrent_net W s2
                 else Inr (init_recurrent_one_to_one (s2 \<lparr> V := V0 \<rparr>))) of
             Inl e \<Rightarrow> Inl e
           | Inr self3 \<Rightarrow>
               if init_hidden self3
               then (case init_lleaky A of
                       (s, m, b0) \<Rightarrow> Inr (self3 \<lparr> spk := s, mem := m, b := b0 \<rparr>))
               else Inr self3))"
    unfolding LLeaky_init_def Let_def s2_def using assms by (simp only: if_False)
  show ?thesis
  proof (cases "lleaky_init_cases s2")
    case (Inl e)
    then have "e = TypeError" using lleaky_init_cases_result [of s2] by auto
    with Inl show ?thesis by (simp add: unfold same)
  next
    case (Inr u)
    have "\<exists>s3. (if all_to_all s2 then init_recurrent_net W s2
                 else Inr (init_recurrent_one_to_one (s2 \<lparr> V := V0 \<rparr>))) = Inr s3"
      using Inr init_recurrent_net_valid [of s2 W] by (cases "all_to_all s2") auto
    then obtain s3 where s3: "(if all_to_all s2 then init_recurrent_net W s2
                 else Inr (init_recurrent_one_to_one (s2 \<lparr> V := V0 \<rparr>))) = Inr s3"
      by blast
    have "LLeaky_init A W self V0 thresh_beta0 dt tau_adaptation a l c k \<noteq> Inl TypeError"
      unfolding unfold Inr s3 by (simp split: prod.splits)
    with Inr show ?thesis by (simp add: same)
  qed
qed

text \<open>
  C5. The configuration check raises exactly for: all-to-all with no linear size and
  no convolution field; all-to-all with exactly one of channels and kernel; all-to-all
  with a linear size together with a convolution field; one-to-one with any of the three
  fields. It accepts exactly the complementary combinations: all-to-all with only a
  linear size, all-to-all with both convolution fields and no linear size, one-to-one
  with none of the fields. The constructor raises this error exactly when the check
  does, so before any projection is built. A field counts as given by the test the code
  applies to it, its Python truth value: \<^verbatim>\<open>None\<close> and the number 0 are not given.
\<close>

theorem C5_init_cases:
  "(lleaky_init_cases self = Inl TypeError \<longleftrightarrow>
      (all_to_all self \<and> \<not> truthy_int (linear_features self)
         \<and> \<not> truthy_int (conv2d_channels self) \<and> \<not> truthy_kernel (kernel_size self))
    \<or> (all_to_all self
         \<and> truthy_int (conv2d_channels self) \<noteq> truthy_kernel (kernel_size self))
    \<or> (all_to_all self \<and> truthy_int (linear_features self)
         \<and> (truthy_int (conv2d_channels self) \<or> truthy_kernel (kernel_size self)))
    \<or> (\<not> all_to_all self
         \<and> (truthy_int (linear_features self) \<or> truthy_int (conv2d_channels self)
              \<or> truthy_kernel (kernel_size self))))
   \<and> (lleaky_init_cases self = Inr () \<longleftrightarrow>
      (all_to_all self \<and> truthy_int (linear_features self)
         \<and> \<not> truthy_int (conv2d_channels self) \<and> \<not> truthy_kernel (kernel_size self))
    \<or> (all_to_all self \<and> \<not> truthy_int (linear_features self)
         \<and> truthy_int (conv2d_channels self) \<and> truthy_kernel (kernel_size self))
    \<or> (\<not> all_to_all self \<and> \<not> truthy_int (linear_features self)
         \<and> \<not> truthy_int (conv2d_channels self) \<and> \<not> truthy_kernel (kernel_size self)))
   \<and> (tau_adaptation \<noteq> 0 \<longrightarrow>
        (LLeaky_init A W self V0 thresh_beta0 dt tau_adaptation
           (all_to_all self) (linear_features self) (conv2d_channels self) (kernel_size self)
           = Inl TypeError
         \<longleftrightarrow> lleaky_init_cases self = Inl TypeError))"
proof -
  have "lleaky_init_cases (self \<lparr> all_to_all := all_to_all self,
          linear_features := linear_features self, kernel_size := kernel_size self,
          conv2d_channels := conv2d_channels self \<rparr>) = lleaky_init_cases self"
    by simp
  then have "tau_adaptation \<noteq> 0 \<longrightarrow>
        (LLeaky_init A W self V0 thresh_beta0 dt tau_adaptation
           (all_to_all self) (linear_features self) (conv2d_channels self) (kernel_size self)
           = Inl TypeError
         \<longleftrightarrow> lleaky_init_cases self = Inl TypeError)"
    using LLeaky_init_validates_first
      [of tau_adaptation A W self V0 thresh_beta0 dt "all_to_all self" "linear_features self"
          "conv2d_channels self" "kernel_size self"]
    by simp
  moreover have "lleaky_init_cases self = Inl TypeError \<longleftrightarrow>
      (all_to_all self \<and> \<not> truthy_int (linear_features self)
         \<and> \<not> truthy_int (conv2d_channels self) \<and> \<not> truthy_kernel (kernel_size self))
    \<or> (all_to_all self
         \<and> truthy_int (conv2d_channels self) \<noteq> truthy_kernel (kernel_size self))
    \<or> (all_to_all self \<and> truthy_int (linear_features self)
         \<and> (truthy_int (conv2d_channels self) \<or> truthy_kernel (kernel_size self)))
    \<or> (\<not> all_to_all self
         \<and> (truthy_int (linear_features self) \<or> truthy_int (conv2d_channels self)
              \<or> truthy_kernel (kernel_size self)))"
    by (auto simp add: lleaky_init_cases_def Let_def)
  moreover have "lleaky_init_cases self = Inr () \<longleftrightarrow>
      (all_to_all self \<and> truthy_int (linear_features self)
         \<and> \<not> truthy_int (conv2d_channels self) \<and> \<not> truthy_kernel (kernel_size self))
    \<or> (all_to_all self \<and> \<not> truthy_int (linear_features self)
         \<and> truthy_int (conv2d_channels self) \<and> truthy_kernel (kernel_size self))
    \<or> (\<not> all_to_all self \<and> \<not> truthy_int (linear_features self)
         \<and> \<not> truthy_int (conv2d_channels self) \<and> \<not> truthy_kernel (kernel_size self))"
    by (auto simp add: lleaky_init_cases_def Let_def)
  ultimately show ?thesis by blast
qed


theorem C5_init_cases_witness:
  "lleaky_init_cases (example_layer \<lparr> all_to_all := True, conv2d_channels := Some 3 \<rparr>)
     = Inl TypeError
   \<and> lleaky_init_cases (example_layer \<lparr> all_to_all := True, linear_features := Some 10 \<rparr>)
     = Inr ()
   \<and> (200::real) \<noteq> 0
   \<and> LLeaky_init (spec_ALIF 1) (\<lambda>x. x)
        (example_layer \<lparr> all_to_all := True, conv2d_channels := Some 3 \<rparr>)
        (scalar 1) 2 1 200 True None (Some 3) None = Inl TypeError"
proof -
  let ?bad = "example_layer \<lparr> all_to_all := True, conv2d_channels := Some 3 \<rparr>"
  let ?good = "example_layer \<lparr> all_to_all := True, linear_features := Some 10 \<rparr>"
  have f: "all_to_all ?bad" "linear_features ?bad = None" "conv2d_channels ?bad = Some 3"
    "kernel_size ?bad = None" "all_to_all ?good" "linear_features ?good = Some 10"
    "conv2d_channels ?good = None" "kernel_size ?good = None"
    by (simp_all add: example_layer_def)
  have t: "(200::real) \<noteq> 0" by simp
  from C5_init_cases [of ?bad 200 "spec_ALIF 1" "\<lambda>x. x" "scalar 1" 2 1]
       C5_init_cases [of ?good 200 "spec_ALIF 1" "\<lambda>x. x" "scalar 1" 2 1] f t
  show ?thesis by simp
qed

text \<open>
  A size of 0 is a field the check treats as absent: all-to-all with
  \<^verbatim>\<open>linear_features=0\<close> alone is rejected, one-to-one with it is accepted.
\<close>

lemma zero_size_counts_as_absent:
  "lleaky_init_cases (example_layer \<lparr> all_to_all := True, linear_features := Some 0 \<rparr>)
     = Inl TypeError
   \<and> lleaky_init_cases (example_layer \<lparr> all_to_all := False, linear_features := Some 0 \<rparr>)
     = Inr ()"
  by (simp add: lleaky_init_cases_def example_layer_def)

subsection \<open>Padding of the convolutional projection\<close>

lemma init_padding_kernel:
  assumes "kernel_size self = Some k"
  shows "init_padding self
         = Inr (self \<lparr> padding := (fst (kernel_extent k) div 2, snd (kernel_extent k) div 2) \<rparr>)"
  using assms by (cases k) (simp_all add: init_padding_def)

lemma conv2d_out_size_odd:
  assumes "odd k"
  shows "conv2d_out_size n k (k div 2) = n"
proof -
  from assms obtain m where "k = 2 * m + 1" by (auto elim: oddE)
  then show ?thesis by (simp add: conv2d_out_size_def)
qed

lemma conv2d_out_size_even:
  assumes "even k"
  shows "conv2d_out_size n k (k div 2) = n + 1"
proof -
  from assms obtain m where "k = 2 * m" by (auto elim: evenE)
  then show ?thesis by (simp add: conv2d_out_size_def)
qed

text \<open>
  C8. The padding is \<open>kernel div 2\<close> on each axis (\<open>init_padding_kernel\<close>), and for an
  odd kernel extent the output extent equals the input extent (\<open>conv2d_out_size_odd\<close>).
  For an even extent it does not: the constructor accepts \<^verbatim>\<open>conv2d_channels=1\<close>,
  \<^verbatim>\<open>kernel_size=2\<close>, pads by \<open>(1, 1)\<close>, and the projection maps a \<open>4 \<times> 4\<close> input to a
  \<open>5 \<times> 5\<close> output, where the class docstring promises padding that makes the output
  match the size of the input.
\<close>

theorem C8_even_kernel:
  "\<exists>self1. LLeaky_init (spec_ALIF 1) (\<lambda>x. x) example_layer (scalar 1) 2 1 200
              True None (Some 1) (Some (KInt 2)) = Inr self1
     \<and> padding self1 = (1, 1)
     \<and> recurrent self1 = Conv2d (Some 1) (Some 1) (KInt 2) (1, 1) (\<lambda>x. x)
     \<and> recurrent_out_shape (recurrent self1) (4, 4) = (5, 5)"
  by (simp add: LLeaky_init_def Let_def lleaky_init_cases_def init_recurrent_net_def
      init_recurrent_conv2d_def init_padding_def example_layer_def conv2d_out_size_def)

section \<open>The owned-state step\<close>

text \<open>On a layer with \<^verbatim>\<open>init_hidden\<close> the owned attributes exist.\<close>

lemma attr_exists_hidden: "init_hidden self \<Longrightarrow> attr_exists has self"
  by (simp add: attr_exists_def)

lemma forward_hidden_raises:
  "spk0 \<noteq> PyFalse \<or> mem0 \<noteq> PyFalse \<Longrightarrow>
   forward_hidden A self input' spk0 mem0 = (self, Inl TypeError)"
  by (auto simp add: forward_hidden_def lleaky_forward_cases_def)

lemma forward_hidden_returns:
  "\<exists>r. snd (forward_hidden A self input' PyFalse PyFalse) = Inr r"
  by (simp add: forward_hidden_def lleaky_forward_cases_def Let_def)

lemma forward_hidden_keeps_b:
  "b (fst (forward_hidden A self input' spk0 mem0)) = b self"
  by (simp add: forward_hidden_def lleaky_forward_cases_def Let_def split: option.splits)


text \<open>
  In the owned-state convention the only assignment to the trace is the replacement of
  the placeholder by zeros on lines 299 to 302.
\<close>

lemma forward_hidden_mode_b:
  assumes "init_hidden self"
  shows "b (fst (forward A self input' spk0 mem0 b0))
         = (if \<not> (has_init_flag spk0 \<or> has_init_flag mem0) \<and> mem0 = PyFalse
               \<and> has_init_flag (mem self)
            then Tensor (zeros_like input') else b self)"
  using assms
  by (simp add: forward_def SpikeTorchConv_def Let_def forward_hidden_keeps_b
      attr_exists_hidden)


text \<open>
  A layer without \<^verbatim>\<open>init_hidden\<close> that is called with the potential left at its default
  fails on line 299 or 300, where it reads an owned attribute it does not have.
\<close>

lemma forward_explicit_default_raises:
  assumes "\<not> init_hidden self" and "mem0 = PyFalse" and "\<not> has_init_flag spk0"
    and "\<not> has_mem self \<or> (has_init_flag (mem self) \<and> (\<not> has_spk self \<or> \<not> has_b self))"
  shows "forward A self input' spk0 mem0 b0 = (self, Inl AttributeError)"
  using assms by (auto simp add: forward_def attr_exists_def)

text \<open>
  The explicit-mode layers this concerns: \<^verbatim>\<open>__init__\<close> gives such a layer none of the
  owned attributes, and after \<^verbatim>\<open>reset_hidden\<close> has given it placeholders for spike and
  potential it still has no trace, so the call fails on line 300.
\<close>

lemma explicit_constructed_owns_nothing:
  assumes "LLeaky_init A W self0 V0 thresh_beta0 dt tau_adaptation a l c k = Inr self"
    and "\<not> init_hidden self"
  shows "has_spk self = has_spk self0 \<and> has_mem self = has_mem self0
       \<and> has_b self = has_b self0"
  using assms
  by (auto simp add: LLeaky_init_def Let_def init_recurrent_net_def
      init_recurrent_linear_def init_recurrent_conv2d_def init_padding_def
      init_recurrent_one_to_one_def
      split: if_splits sum.splits prod.splits option.splits kernel.splits)

lemma explicit_after_reset_raises:
  assumes "creates_placeholders A" and "\<not> init_hidden self" and "\<not> has_b self"
  shows "\<exists>self1. reset_hidden_layer A (LLeakyInstance self) = LLeakyInstance self1
     \<and> forward A self1 input' PyFalse PyFalse b0 = (self1, Inl AttributeError)"
  using assms
  by (simp add: reset_hidden_layer_def creates_placeholders_def forward_def attr_exists_def)

text \<open>
  C7 (amended). In the owned-state convention a step call that supplies a spike or a
  potential argument other than the default raises an error, and vice versa a step call
  that leaves both at their defaults against an explicit-mode layer, which owns no
  state, raises an error. The layer is unchanged when the error is raised, except in
  one case of the owned-state convention: the potential argument is left at its
  default, the spike argument is a tensor, and the owned potential is still the
  placeholder; then the owned spike, potential and trace have been bound to zeros shaped
  like the input before the error is raised.
\<close>

theorem C7_usage_error:
  "(init_hidden self \<and> (spk0 \<noteq> PyFalse \<or> mem0 \<noteq> PyFalse) \<longrightarrow>
      snd (forward A self input' spk0 mem0 b0) = Inl TypeError
      \<and> fst (forward A self input' spk0 mem0 b0)
        = (if spk0 \<noteq> SpikeTensor \<and> mem0 = PyFalse \<and> mem self = SpikeTensor
           then self \<lparr> spk := Tensor (zeros_like input'), mem := Tensor (zeros_like input'),
                       b := Tensor (zeros_like input') \<rparr>
           else self))
   \<and> (\<not> init_hidden self \<and> spk0 = PyFalse \<and> mem0 = PyFalse
        \<and> (\<not> has_mem self
            \<or> (has_init_flag (mem self) \<and> (\<not> has_spk self \<or> \<not> has_b self))) \<longrightarrow>
      snd (forward A self input' spk0 mem0 b0) = Inl AttributeError
      \<and> fst (forward A self input' spk0 mem0 b0) = self)"
proof (intro conjI impI)
  assume h: "init_hidden self \<and> (spk0 \<noteq> PyFalse \<or> mem0 \<noteq> PyFalse)"
  let ?goal = "snd (forward A self input' spk0 mem0 b0) = Inl TypeError
      \<and> fst (forward A self input' spk0 mem0 b0)
        = (if spk0 \<noteq> SpikeTensor \<and> mem0 = PyFalse \<and> mem self = SpikeTensor
           then self \<lparr> spk := Tensor (zeros_like input'), mem := Tensor (zeros_like input'),
                       b := Tensor (zeros_like input') \<rparr>
           else self)"
  have both: ?goal
  proof (cases "has_init_flag spk0 \<or> has_init_flag mem0")
    case True
    then have "mem0 = PyFalse \<longrightarrow> spk0 = SpikeTensor"
      by (cases spk0; cases mem0) auto
    with True h show ?thesis
      by (auto simp add: forward_def SpikeTorchConv_def forward_hidden_raises)
  next
    case False
    then have sp: "spk0 \<noteq> SpikeTensor" and me: "mem0 \<noteq> SpikeTensor"
      by (cases spk0; cases mem0; simp)+
    show ?thesis
    proof (cases "mem0 = PyFalse \<and> has_init_flag (mem self)")
      case True
      then have "mem self = SpikeTensor" by (cases "mem self") auto
      with True False h sp show ?thesis
        by (simp add: forward_def SpikeTorchConv_def Let_def forward_hidden_raises
            attr_exists_hidden)
    next
      case False
      then have "\<not> (mem0 = PyFalse \<and> mem self = SpikeTensor)" by auto
      with False \<open>\<not> (has_init_flag spk0 \<or> has_init_flag mem0)\<close> h show ?thesis
        by (auto simp add: forward_def forward_hidden_raises attr_exists_hidden)
    qed
  qed
  from both show "snd (forward A self input' spk0 mem0 b0) = Inl TypeError" by blast
  from both show "fst (forward A self input' spk0 mem0 b0)
        = (if spk0 \<noteq> SpikeTensor \<and> mem0 = PyFalse \<and> mem self = SpikeTensor
           then self \<lparr> spk := Tensor (zeros_like input'), mem := Tensor (zeros_like input'),
                       b := Tensor (zeros_like input') \<rparr>
           else self)" by blast
next
  assume e: "\<not> init_hidden self \<and> spk0 = PyFalse \<and> mem0 = PyFalse
        \<and> (\<not> has_mem self
            \<or> (has_init_flag (mem self) \<and> (\<not> has_spk self \<or> \<not> has_b self)))"
  then have "forward A self input' spk0 mem0 b0 = (self, Inl AttributeError)"
    using forward_explicit_default_raises [of self mem0 spk0 A input' b0] by auto
  then show "snd (forward A self input' spk0 mem0 b0) = Inl AttributeError"
    and "fst (forward A self input' spk0 mem0 b0) = self" by simp_all
qed

theorem C7_usage_error_witness:
  "init_hidden example_hidden
   \<and> snd (forward (spec_ALIF 1) example_hidden (scalar 3) (Tensor (scalar 1)) (Tensor (scalar 2))
            PyFalse) = Inl TypeError
   \<and> fst (forward (spec_ALIF 1) example_hidden (scalar 3) (Tensor (scalar 1)) (Tensor (scalar 2))
            PyFalse) = example_hidden
   \<and> \<not> init_hidden example_layer \<and> \<not> has_mem example_layer
   \<and> snd (forward (spec_ALIF 1) example_layer (scalar 3) PyFalse PyFalse PyFalse)
       = Inl AttributeError
   \<and> fst (forward (spec_ALIF 1) example_layer (scalar 3) PyFalse PyFalse PyFalse)
       = example_layer"
proof -
  have h: "init_hidden example_hidden" by (simp add: example_hidden_def)
  have e: "\<not> init_hidden example_layer" "\<not> has_mem example_layer"
    by (simp_all add: example_layer_def)
  from C7_usage_error [of example_hidden "Tensor (scalar 1)" "Tensor (scalar 2)"
         "spec_ALIF 1" "scalar 3" PyFalse]
       C7_usage_error [of example_layer PyFalse PyFalse "spec_ALIF 1" "scalar 3" PyFalse]
       h e
  show ?thesis by simp
qed

text \<open>
  The claim as written fails on a freshly constructed layer: a call that supplies only a
  spike tensor raises the error after the owned potential has changed from the
  placeholder to a tensor of zeros.
\<close>

theorem C7_counterexample:
  "init_hidden fresh_hidden
   \<and> snd (forward (spec_ALIF 1) fresh_hidden (scalar 3) (Tensor (scalar 1)) PyFalse PyFalse)
       = Inl TypeError
   \<and> mem fresh_hidden = SpikeTensor
   \<and> mem (fst (forward (spec_ALIF 1) fresh_hidden (scalar 3) (Tensor (scalar 1)) PyFalse PyFalse))
       = Tensor (zeros_like (scalar 3))"
  by (simp add: fresh_hidden_def example_hidden_def example_layer_def forward_def
      SpikeTorchConv_def Let_def forward_hidden_raises attr_exists_def)

text \<open>
  C10. In the owned-state convention the check looks at the spike and potential
  arguments only. A call that leaves both at their defaults raises no error whatever
  trace argument it supplies, and the supplied trace has no effect: the returned value
  and the updated layer are those of the call without it.
\<close>

theorem C10_trace_argument_ignored:
  assumes "init_hidden self"
  shows "lleaky_forward_cases PyFalse PyFalse = Inr ()
       \<and> (\<exists>r. snd (forward A self input' PyFalse PyFalse b0) = Inr r)
       \<and> forward A self input' PyFalse PyFalse b0 = forward A self input' PyFalse PyFalse PyFalse"
  using assms forward_hidden_returns
  by (simp add: forward_def lleaky_forward_cases_def SpikeTorchConv_def Let_def
      attr_exists_hidden)

theorem C10_trace_argument_ignored_witness:
  "init_hidden example_hidden
   \<and> (\<exists>r. snd (forward (spec_ALIF 1) example_hidden (scalar 3) PyFalse PyFalse
               (Tensor (scalar 7))) = Inr r)
   \<and> forward (spec_ALIF 1) example_hidden (scalar 3) PyFalse PyFalse (Tensor (scalar 7))
       = forward (spec_ALIF 1) example_hidden (scalar 3) PyFalse PyFalse PyFalse"
proof -
  have h: "init_hidden example_hidden" by (simp add: example_hidden_def)
  from C10_trace_argument_ignored [OF h, of "spec_ALIF 1" "scalar 3" "Tensor (scalar 7)"] h
  show ?thesis by blast
qed

lemma after_first_step_state:
  "init_hidden after_first_step
   \<and> spk after_first_step = Tensor (scalar 1)
   \<and> mem after_first_step = Tensor (scalar 2)
   \<and> b after_first_step = Tensor (scalar 0)
   \<and> rho_b after_first_step = 1/2"
  by (simp add: after_first_step_def fresh_hidden_def example_hidden_def example_layer_def
      forward_def forward_hidden_def lleaky_forward_cases_def SpikeTorchConv_def Let_def
      build_state_function_hidden_def base_state_function_hidden_def spec_ALIF_def meets_def
      zeros_like_def tadd_def tsub_def tmul_def clamp_def scalar_def fun_eq_iff
      attr_exists_def)

text \<open>
  C6. The owned-state step does not do what the claim says. After a first step with
  input current 2 the layer has spiked and its trace is 0; the next step leaves the
  trace at 0, where the update of the explicit-state branch gives
  \<open>1/2 * 0 + (1 - 1/2) * 1 = 1/2\<close>. Lines 327 to 343 never call
  \<^verbatim>\<open>_b_state_function\<close> or \<^verbatim>\<open>_get_new_thresh\<close>.
\<close>

theorem C6_hidden_step_keeps_trace:
  "init_hidden after_first_step
   \<and> val (spk after_first_step) 0 = 1
   \<and> val (b after_first_step) 0 = 0
   \<and> val (b (fst (forward (spec_ALIF 1) after_first_step (scalar 0) PyFalse PyFalse PyFalse))) 0
       = 0
   \<and> b_state_function after_first_step
        (val (spk after_first_step)) (val (b after_first_step)) 0 = 1/2"
proof -
  note s = after_first_step_state
  have "b (fst (forward (spec_ALIF 1) after_first_step (scalar 0) PyFalse PyFalse PyFalse))
        = b after_first_step"
    using s by (simp add: forward_hidden_mode_b)
  with s show ?thesis
    by (simp add: b_state_function_def tadd_def tmul_def scalar_def)
qed

section \<open>The subtract reset policy\<close>

lemma base_state_function_reset [simp]:
  "base_state_function (self \<lparr> reset := r \<rparr>) = base_state_function self"
  by (simp add: base_state_function_def fun_eq_iff)

lemma base_state_function_hidden_reset [simp]:
  "base_state_function_hidden (self \<lparr> reset := r \<rparr>) = base_state_function_hidden self"
  by (simp add: base_state_function_hidden_def fun_eq_iff)

lemma forward_explicit_subtract:
  assumes "reset_mechanism_val self = Subtract" and "\<not> init_hidden self"
  shows "\<exists>s. snd (forward A self input' (Tensor spk0) (Tensor mem0) (Tensor b0))
        = Inr (Ret3 s
            (apply_state_quant self
               (base_state_function self input' spk0
                  (tsub mem0
                     (tmul (alif_mem_reset A self mem0 (b_state_function self spk0 b0)
                              (get_new_thresh self (b_state_function self spk0 b0)))
                           (get_new_thresh self (b_state_function self spk0 b0))))))
            (b_state_function self spk0 b0))"
  using assms
  by (cases "state_quant self")
     (simp_all add: forward_explicit_tensors forward_explicit_def Let_def
        build_state_function_def apply_state_quant_def)

lemma forward_hidden_subtract:
  assumes "reset_mechanism_val self = Subtract" and "init_hidden self"
    and "\<not> has_init_flag (mem self)"
  shows "mem (fst (forward A self input' PyFalse PyFalse b0))
       = Tensor (apply_state_quant self
           (tsub (base_state_function_hidden self input')
                 (tmul (mem_reset A self (val (mem self))) (threshold self))))"
  using assms
  by (cases "state_quant self")
     (simp_all add: forward_def forward_hidden_def lleaky_forward_cases_def Let_def
        build_state_function_hidden_def apply_state_quant_def attr_exists_hidden)

text \<open>
  C3 (amended). Under the subtract reset policy the explicit-state step computes the
  new potential as \<open>base(input, spike, potential - reset * threshold)\<close> with the
  adaptation-adjusted threshold, followed by the quantisation hook when one is
  configured: the threshold amount scaled by the reset signal is subtracted from the
  prior potential before the integration. In the owned-state convention the amount is
  subtracted after the integration instead and is not scaled by the decay: where the
  adaptation-adjusted threshold equals the base threshold, the new potential is
  \<open>base_hidden(input) - reset * threshold\<close>, as the class docstring writes the update.
\<close>

theorem C3_subtract_reset:
  assumes "reset_mechanism_val self = Subtract"
  shows "build_state_function self input' spk0 mem0 thresh
           = base_state_function self input' spk0 (tsub mem0 (tmul (reset self) thresh))
       \<and> (\<not> init_hidden self \<longrightarrow>
           (\<exists>s. snd (forward A self input' (Tensor spk0) (Tensor mem0) (Tensor b0))
             = Inr (Ret3 s
                 (apply_state_quant self
                    (base_state_function self input' spk0
                       (tsub mem0
                          (tmul (alif_mem_reset A self mem0 (b_state_function self spk0 b0)
                                   (get_new_thresh self (b_state_function self spk0 b0)))
                                (get_new_thresh self (b_state_function self spk0 b0))))))
                 (b_state_function self spk0 b0))))
       \<and> (get_new_thresh self (b_state_function self (val (spk self)) (val (b self))) i
            = threshold self i \<longrightarrow>
           build_state_function_hidden self input' i
             = base_state_function_hidden self input' i
               - reset self i
                 * get_new_thresh self (b_state_function self (val (spk self)) (val (b self))) i)
       \<and> (init_hidden self \<and> \<not> has_init_flag (mem self)
           \<and> get_new_thresh self (b_state_function self (val (spk self)) (val (b self)))
               = threshold self \<longrightarrow>
           mem (fst (forward A self input' PyFalse PyFalse bh))
             = Tensor (apply_state_quant self
                 (tsub (base_state_function_hidden self input')
                    (tmul (mem_reset A self (val (mem self)))
                       (get_new_thresh self
                          (b_state_function self (val (spk self)) (val (b self))))))))"
proof (intro conjI impI)
  show "build_state_function self input' spk0 mem0 thresh
           = base_state_function self input' spk0 (tsub mem0 (tmul (reset self) thresh))"
    using assms by (simp add: build_state_function_def)
next
  assume "\<not> init_hidden self"
  with assms show "\<exists>s. snd (forward A self input' (Tensor spk0) (Tensor mem0) (Tensor b0))
             = Inr (Ret3 s
                 (apply_state_quant self
                    (base_state_function self input' spk0
                       (tsub mem0
                          (tmul (alif_mem_reset A self mem0 (b_state_function self spk0 b0)
                                   (get_new_thresh self (b_state_function self spk0 b0)))
                                (get_new_thresh self (b_state_function self spk0 b0))))))
                 (b_state_function self spk0 b0))"
    by (rule forward_explicit_subtract)
next
  assume "get_new_thresh self (b_state_function self (val (spk self)) (val (b self))) i
            = threshold self i"
  with assms show "build_state_function_hidden self input' i
             = base_state_function_hidden self input' i
               - reset self i
                 * get_new_thresh self (b_state_function self (val (spk self)) (val (b self))) i"
    by (simp add: build_state_function_hidden_def tsub_def tmul_def)
next
  assume h: "init_hidden self \<and> \<not> has_init_flag (mem self)
           \<and> get_new_thresh self (b_state_function self (val (spk self)) (val (b self)))
               = threshold self"
  with assms have "mem (fst (forward A self input' PyFalse PyFalse bh))
       = Tensor (apply_state_quant self
           (tsub (base_state_function_hidden self input')
                 (tmul (mem_reset A self (val (mem self))) (threshold self))))"
    using forward_hidden_subtract [of self A input' bh] by blast
  with h show "mem (fst (forward A self input' PyFalse PyFalse bh))
             = Tensor (apply_state_quant self
                 (tsub (base_state_function_hidden self input')
                    (tmul (mem_reset A self (val (mem self)))
                       (get_new_thresh self
                          (b_state_function self (val (spk self)) (val (b self)))))))"
    by simp
qed

lemma subtract_hidden_thresholds:
  "get_new_thresh subtract_hidden_layer
     (b_state_function subtract_hidden_layer (val (spk subtract_hidden_layer))
        (val (b subtract_hidden_layer)))
   = threshold subtract_hidden_layer"
  by (simp add: get_new_thresh_def b_state_function_def subtract_hidden_layer_def
      example_hidden_def example_layer_def tadd_def tmul_def scalar_def)

theorem C3_subtract_reset_witness:
  "reset_mechanism_val subtract_layer = Subtract \<and> \<not> init_hidden subtract_layer
   \<and> (\<exists>s m t. snd (forward (spec_ALIF 1) subtract_layer (scalar 0)
                     (Tensor (scalar 0)) (Tensor (scalar 2)) (Tensor (scalar 0)))
                = Inr (Ret3 s m t) \<and> m 0 = 1/2)
   \<and> reset_mechanism_val subtract_hidden_layer = Subtract \<and> init_hidden subtract_hidden_layer
   \<and> \<not> has_init_flag (mem subtract_hidden_layer)
   \<and> get_new_thresh subtract_hidden_layer
        (b_state_function subtract_hidden_layer (val (spk subtract_hidden_layer))
           (val (b subtract_hidden_layer))) = threshold subtract_hidden_layer
   \<and> build_state_function_hidden subtract_hidden_layer (scalar 0) 0 = 0
   \<and> val (mem (fst (forward (spec_ALIF 1) subtract_hidden_layer (scalar 0)
                      PyFalse PyFalse PyFalse))) 0 = 0"
proof -
  have e: "reset_mechanism_val subtract_layer = Subtract" "\<not> init_hidden subtract_layer"
    "state_quant subtract_layer = None"
    by (simp_all add: subtract_layer_def example_layer_def)
  have h: "reset_mechanism_val subtract_hidden_layer = Subtract"
    "init_hidden subtract_hidden_layer" "\<not> has_init_flag (mem subtract_hidden_layer)"
    "state_quant subtract_hidden_layer = None"
    by (simp_all add: subtract_hidden_layer_def example_hidden_def example_layer_def)
  note t = subtract_hidden_thresholds
  have ev1: "base_state_function subtract_layer (scalar 0) (scalar 0)
       (tsub (scalar 2)
          (tmul (alif_mem_reset (spec_ALIF 1) subtract_layer (scalar 2)
                   (b_state_function subtract_layer (scalar 0) (scalar 0))
                   (get_new_thresh subtract_layer
                      (b_state_function subtract_layer (scalar 0) (scalar 0))))
                (get_new_thresh subtract_layer
                   (b_state_function subtract_layer (scalar 0) (scalar 0))))) 0 = 1/2"
    by (simp add: base_state_function_apply subtract_layer_def example_layer_def
        spec_ALIF_def meets_def get_new_thresh_def b_state_function_def
        tadd_def tsub_def tmul_def clamp_def scalar_def)
  have ev2: "base_state_function_hidden subtract_hidden_layer (scalar 0) 0 = 1"
    "reset subtract_hidden_layer 0 = 1" "threshold subtract_hidden_layer 0 = 1"
    "mem_reset (spec_ALIF 1) subtract_hidden_layer (val (mem subtract_hidden_layer)) 0 = 1"
    by (simp_all add: base_state_function_hidden_apply subtract_hidden_layer_def
        example_hidden_def example_layer_def spec_ALIF_def meets_def
        tmul_def clamp_def scalar_def)
  have c1: "\<exists>s m t. snd (forward (spec_ALIF 1) subtract_layer (scalar 0)
                     (Tensor (scalar 0)) (Tensor (scalar 2)) (Tensor (scalar 0)))
                = Inr (Ret3 s m t) \<and> m 0 = 1/2"
    using C3_subtract_reset [OF e(1), of "scalar 0" "scalar 0" "scalar 2" "scalar 1"
        "spec_ALIF 1" "scalar 0" 0 PyFalse] e(2,3) ev1
    by (auto simp add: apply_state_quant_def)
  have c2: "build_state_function_hidden subtract_hidden_layer (scalar 0) 0 = 0
     \<and> val (mem (fst (forward (spec_ALIF 1) subtract_hidden_layer (scalar 0)
                      PyFalse PyFalse PyFalse))) 0 = 0"
    using C3_subtract_reset [OF h(1), of "scalar 0" "scalar 0" "scalar 2" "scalar 1"
        "spec_ALIF 1" "scalar 0" 0 PyFalse] h(2,3,4) t ev2
    by (simp add: apply_state_quant_def tsub_def tmul_def)
  from e h t c1 c2 show ?thesis by blast
qed

text \<open>
  The claim as written fails in the owned-state convention. Decay one half, owned
  potential 2, threshold 1, reset signal 1, no input and no previous spike: the step
  yields \<open>1/2 * 2 - 1 * 1 = 0\<close>, while integrating from the potential lowered by the
  threshold would yield \<open>1/2 * (2 - 1) = 1/2\<close>.
\<close>

theorem C3_hidden_counterexample:
  "reset_mechanism_val subtract_hidden_layer = Subtract
   \<and> build_state_function_hidden subtract_hidden_layer (scalar 0) 0 = 0
   \<and> base_state_function_hidden
        (subtract_hidden_layer \<lparr> mem := Tensor (tsub (val (mem subtract_hidden_layer))
             (tmul (reset subtract_hidden_layer) (threshold subtract_hidden_layer))) \<rparr>)
        (scalar 0) 0 = 1/2"
  by (simp add: subtract_hidden_layer_def example_hidden_def example_layer_def
      build_state_function_hidden_def base_state_function_hidden_apply
      tsub_def tmul_def clamp_def scalar_def)

section \<open>Resetting the owned state\<close>








end
